theory Spec2Isabelle
  imports Complex_Main "HOL-Library.Multiset"
begin

section \<open>Live warning feed of the interview room\<close>

text \<open>
  The interview room (\<^verbatim>\<open>InterviewRoom\<close>, \<^verbatim>\<open>analyzeWarnings\<close>) turns the
  current metrics object of the session into a list of warning objects. A JavaScript
  number is modelled as a \<^typ>\<open>real\<close>: the code only compares the metrics with
  literal thresholds, and a comparison involves no rounding. An object that may be
  \<^verbatim>\<open>null\<close> or \<^verbatim>\<open>undefined\<close> is an \<^typ>\<open>'a option\<close>.
\<close>

subsection \<open>Warning objects\<close>

text \<open>The \<^verbatim>\<open>type\<close> field: \<^verbatim>\<open>'success'\<close>, \<^verbatim>\<open>'warning'\<close>, \<^verbatim>\<open>'error'\<close>.\<close>

datatype warning_type = Success | Warning | Error

text \<open>The \<^verbatim>\<open>category\<close> field: \<^verbatim>\<open>'detection'\<close>, \<^verbatim>\<open>'performance'\<close>, \<^verbatim>\<open>'emotion'\<close>.\<close>

datatype category = Detection | Performance | Emotion

text \<open>
  The \<^verbatim>\<open>icon\<close> field holds one emoji; each constructor names the emoji of the source:
  bust in silhouette (U+1F464), eye (U+1F441), check mark button (U+2705),
  flexed biceps (U+1F4AA), speaking head (U+1F5E3), smiling face (U+1F60A).
\<close>

datatype icon = BustIcon | EyeIcon | CheckIcon | BicepsIcon | SpeakingIcon | SmileIcon

record warning =
  wtype :: warning_type
  message :: string
  icon :: icon
  priority :: int
  category :: category

subsection \<open>The metrics object\<close>

text \<open>
  \<^verbatim>\<open>face_detected\<close> is absent from the initial state and arrives with a metrics
  update, so it is optional; \<^verbatim>\<open>emotionScores\<close> is tested for truthiness before it is
  read, so it is optional too, and a score is looked up by the emotion's name.
\<close>

record metrics =
  face_detected :: "bool option"
  landmarks :: "nat option"
  eyeContactPercentage :: real
  confidenceScore :: real
  speechClarity :: real
  emotionScores :: "(string \<rightharpoonup> real) option"
  warnings :: "string list"

subsection \<open>analyzeWarnings\<close>

text \<open>\<^verbatim>\<open>warnings.push(w)\<close> appends at the end.\<close>

definition push :: "'a list \<Rightarrow> 'a \<Rightarrow> 'a list" where
  "push xs x = xs @ [x]"

text \<open>The truthiness of \<^verbatim>\<open>metrics?.face_detected\<close>.\<close>

definition face_detected_truthy :: "'a metrics_scheme option \<Rightarrow> bool" where
  "face_detected_truthy m =
     (case m of None \<Rightarrow> False | Some metrics \<Rightarrow> face_detected metrics = Some True)"

definition noFaceWarning :: warning where
  "noFaceWarning =
     \<lparr> wtype = Error,
       message = ''No face detected! Please position yourself in front of the camera.'',
       icon = BustIcon, priority = 1, category = Detection \<rparr>"

definition eyesNotVisibleWarning :: warning where
  "eyesNotVisibleWarning =
     \<lparr> wtype = Error,
       message = ''Eyes not visible! Please look directly at the camera.'',
       icon = EyeIcon, priority = 2, category = Detection \<rparr>"

definition detectionSuccess :: warning where
  "detectionSuccess =
     \<lparr> wtype = Success,
       message = ''Face and eyes detected successfully!'',
       icon = CheckIcon, priority = 0, category = Detection \<rparr>"

text \<open>The three performance checks; each pushes one object.\<close>

definition eyeContactCheck :: "real \<Rightarrow> warning" where
  "eyeContactCheck eyeContact =
     (if eyeContact < 30 then
        \<lparr> wtype = Error,
          message = ''Low eye contact detected. Try to look at the camera more.'',
          icon = EyeIcon, priority = 3, category = Performance \<rparr>
      else if eyeContact < 50 then
        \<lparr> wtype = Warning,
          message = ''Eye contact could be improved. Focus on the camera.'',
          icon = EyeIcon, priority = 4, category = Performance \<rparr>
      else
        \<lparr> wtype = Success,
          message = ''Good eye contact maintained!'',
          icon = EyeIcon, priority = 0, category = Performance \<rparr>)"

definition confidenceCheck :: "real \<Rightarrow> warning" where
  "confidenceCheck confidence =
     (if confidence < 0.4 then
        \<lparr> wtype = Error,
          message = ''Low confidence detected. Try to sit up straight and maintain good posture.'',
          icon = BicepsIcon, priority = 3, category = Performance \<rparr>
      else if confidence < 0.6 then
        \<lparr> wtype = Warning,
          message = ''Confidence could be improved. Maintain better posture.'',
          icon = BicepsIcon, priority = 4, category = Performance \<rparr>
      else
        \<lparr> wtype = Success,
          message = ''Good confidence and posture!'',
          icon = BicepsIcon, priority = 0, category = Performance \<rparr>)"

definition speechClarityCheck :: "real \<Rightarrow> warning" where
  "speechClarityCheck clarity =
     (if clarity < 0.6 then
        \<lparr> wtype = Error,
          message = ''Speech clarity needs improvement. Speak more clearly and slowly.'',
          icon = SpeakingIcon, priority = 3, category = Performance \<rparr>
      else if clarity < 0.8 then
        \<lparr> wtype = Warning,
          message = ''Speech clarity could be improved.'',
          icon = SpeakingIcon, priority = 4, category = Performance \<rparr>
      else
        \<lparr> wtype = Success,
          message = ''Excellent speech clarity!'',
          icon = SpeakingIcon, priority = 0, category = Performance \<rparr>)"

text \<open>The emotion check: a loop over the four negative emotions.\<close>

definition negativeEmotions :: "string list" where
  "negativeEmotions = [''angry'', ''sad'', ''fear'', ''disgust'']"

text \<open>
  \<^verbatim>\<open>metrics.emotionScores[emotion] > 0.5\<close>: a missing key reads as
  \<^verbatim>\<open>undefined\<close>, and the comparison is then false.
\<close>

definition exceedsThreshold :: "(string \<rightharpoonup> real) \<Rightarrow> string \<Rightarrow> bool" where
  "exceedsThreshold scores emotion =
     (case scores emotion of None \<Rightarrow> False | Some score \<Rightarrow> score > 0.5)"

definition emotionWarning :: "string \<Rightarrow> warning" where
  "emotionWarning emotion =
     \<lparr> wtype = Warning,
       message = ''Detected '' @ emotion @ '' expression. Try to maintain a positive demeanor.'',
       icon = SmileIcon, priority = 4, category = Emotion \<rparr>"

definition emotionSuccess :: warning where
  "emotionSuccess =
     \<lparr> wtype = Success,
       message = ''Positive emotional state detected!'',
       icon = SmileIcon, priority = 0, category = Emotion \<rparr>"

text \<open>
  One round of the \<^verbatim>\<open>forEach\<close>; the state is the flag
  \<^verbatim>\<open>hasNegativeEmotion\<close> and the list built so far.
\<close>

definition emotionStep ::
  "(string \<rightharpoonup> real) \<Rightarrow> string \<Rightarrow> bool \<times> warning list \<Rightarrow> bool \<times> warning list" where
  "emotionStep scores emotion st =
     (if exceedsThreshold scores emotion
      then (True, push (snd st) (emotionWarning emotion))
      else st)"

definition emotionCheck :: "(string \<rightharpoonup> real) option \<Rightarrow> warning list \<Rightarrow> warning list" where
  "emotionCheck emotionScores_opt ws =
     (case emotionScores_opt of
        None \<Rightarrow> ws
      | Some scores \<Rightarrow>
          (let st = fold (emotionStep scores) negativeEmotions (False, ws)
           in if \<not> fst st then push (snd st) emotionSuccess else snd st))"

text \<open>
  The function itself; its value is the list handed to \<^verbatim>\<open>setWarningMessages\<close>.
  The two detection failures return before the sort. Past the first test the metrics
  object exists, so the \<^const>\<open>None\<close> case of the inner distinction is never taken.
  \<^verbatim>\<open>Array.prototype.sort\<close>
  with the comparator \<^verbatim>\<open>a.priority - b.priority\<close> is a stable sort on the
  priority, as \<^const>\<open>sort_key\<close> is.
\<close>

definition analyzeWarnings :: "'a metrics_scheme option \<Rightarrow> warning list" where
  "analyzeWarnings m =
     (if \<not> face_detected_truthy m then push [] noFaceWarning
      else case m of
        None \<Rightarrow> push [] noFaceWarning
      | Some metrics \<Rightarrow>
          if face_detected metrics = Some True \<and> eyeContactPercentage metrics = 0
          then push [] eyesNotVisibleWarning
          else
            sort_key priority
              (if face_detected metrics = Some True \<and> eyeContactPercentage metrics > 0
               then
                 emotionCheck (emotionScores metrics)
                   (push (push (push (push []
                      detectionSuccess)
                      (eyeContactCheck (eyeContactPercentage metrics)))
                      (confidenceCheck (confidenceScore metrics)))
                      (speechClarityCheck (speechClarity metrics)))
               else []))"

section \<open>The session state and its reducer\<close>

text \<open>A question as the setup page hands it over.\<close>

record question =
  question_text :: string
  question_category :: string
  difficulty :: string

text \<open>The final report of the server, as the results page reads it.\<close>

record final_report =
  eye_contact_percentage :: real
  confidence_score :: real
  speech_clarity :: real
  overall_score :: real
  feedback :: "string list"

typedecl media_stream
typedecl socket

record state =
  sessionId :: "string option"
  candidateName :: string
  questions :: "question list"
  currentQuestionIndex :: int
  isInterviewActive :: bool
  isInterviewCompleted :: bool
  metrics :: metrics
  videoStream :: "media_stream option"
  audioStream :: "media_stream option"
  isLoading :: bool
  error :: "string option"
  finalResults :: "final_report option"
  socket :: "socket option"
  isConnected :: bool

definition initialState :: state where
  "initialState =
     \<lparr> sessionId = None, candidateName = [], questions = [], currentQuestionIndex = 0,
       isInterviewActive = False, isInterviewCompleted = False,
       metrics = \<lparr> face_detected = None, landmarks = None, eyeContactPercentage = 0,
                   confidenceScore = 0, speechClarity = 0,
                   emotionScores = Some Map.empty, warnings = [] \<rparr>,
       videoStream = None, audioStream = None, isLoading = False, error = None,
       finalResults = None, socket = None, isConnected = False \<rparr>"

text \<open>
  The payload of a metrics update is a partial metrics object: a field that is
  \<^const>\<open>None\<close> is a key the payload does not have.
\<close>

record metrics_payload =
  face_detected_p :: "bool option"
  landmarks_p :: "nat option"
  eyeContactPercentage_p :: "real option"
  confidenceScore_p :: "real option"
  speechClarity_p :: "real option"
  emotionScores_p :: "(string \<rightharpoonup> real) option option"
  warnings_p :: "string list option"

text \<open>The object spread \<^verbatim>\<open>{ ...state.metrics, ...action.payload }\<close>.\<close>

definition spread_metrics :: "metrics \<Rightarrow> metrics_payload \<Rightarrow> metrics" where
  "spread_metrics old p =
     \<lparr> face_detected = (case face_detected_p p of None \<Rightarrow> face_detected old | Some v \<Rightarrow> Some v),
       landmarks = (case landmarks_p p of None \<Rightarrow> landmarks old | Some v \<Rightarrow> Some v),
       eyeContactPercentage =
         (case eyeContactPercentage_p p of None \<Rightarrow> eyeContactPercentage old | Some v \<Rightarrow> v),
       confidenceScore = (case confidenceScore_p p of None \<Rightarrow> confidenceScore old | Some v \<Rightarrow> v),
       speechClarity = (case speechClarity_p p of None \<Rightarrow> speechClarity old | Some v \<Rightarrow> v),
       emotionScores = (case emotionScores_p p of None \<Rightarrow> emotionScores old | Some v \<Rightarrow> v),
       warnings = (case warnings_p p of None \<Rightarrow> warnings old | Some v \<Rightarrow> v) \<rparr>"

datatype action =
    SET_SESSION_ID "string option"
  | SET_CANDIDATE_NAME string
  | SET_QUESTIONS "question list"
  | SET_CURRENT_QUESTION int
  | SET_INTERVIEW_ACTIVE bool
  | SET_INTERVIEW_COMPLETED bool
  | UPDATE_METRICS metrics_payload
  | SET_VIDEO_STREAM "media_stream option"
  | SET_AUDIO_STREAM "media_stream option"
  | SET_LOADING bool
  | SET_ERROR "string option"
  | SET_FINAL_RESULTS "final_report option"
  | SET_SOCKET "socket option"
  | SET_CONNECTED bool
  | RESET_STATE
  | UNKNOWN_ACTION

fun interviewReducer :: "state \<Rightarrow> action \<Rightarrow> state" where
  "interviewReducer s (SET_SESSION_ID payload) = s\<lparr>sessionId := payload\<rparr>"
| "interviewReducer s (SET_CANDIDATE_NAME payload) = s\<lparr>candidateName := payload\<rparr>"
| "interviewReducer s (SET_QUESTIONS payload) = s\<lparr>questions := payload\<rparr>"
| "interviewReducer s (SET_CURRENT_QUESTION payload) = s\<lparr>currentQuestionIndex := payload\<rparr>"
| "interviewReducer s (SET_INTERVIEW_ACTIVE payload) = s\<lparr>isInterviewActive := payload\<rparr>"
| "interviewReducer s (SET_INTERVIEW_COMPLETED payload) = s\<lparr>isInterviewCompleted := payload\<rparr>"
| "interviewReducer s (UPDATE_METRICS payload) = s\<lparr>metrics := spread_metrics (metrics s) payload\<rparr>"
| "interviewReducer s (SET_VIDEO_STREAM payload) = s\<lparr>videoStream := payload\<rparr>"
| "interviewReducer s (SET_AUDIO_STREAM payload) = s\<lparr>audioStream := payload\<rparr>"
| "interviewReducer s (SET_LOADING payload) = s\<lparr>isLoading := payload\<rparr>"
| "interviewReducer s (SET_ERROR payload) = s\<lparr>error := payload\<rparr>"
| "interviewReducer s (SET_FINAL_RESULTS payload) = s\<lparr>finalResults := payload\<rparr>"
| "interviewReducer s (SET_SOCKET payload) = s\<lparr>socket := payload\<rparr>"
| "interviewReducer s (SET_CONNECTED payload) = s\<lparr>isConnected := payload\<rparr>"
| "interviewReducer s RESET_STATE = initialState"
| "interviewReducer s UNKNOWN_ACTION = s"

subsection \<open>Question navigation\<close>







section \<open>Feedback bullets of the results page\<close>

text \<open>
  The two bullet lists of the results page, computed from the final report alone. Each
  bullet is the text of its list item, without the leading bullet character.
\<close>

definition strengths :: "final_report \<Rightarrow> string list" where
  "strengths r =
     (if overall_score r \<ge> 80
      then [''Excellent overall performance'', ''Strong communication skills'',
            ''Good preparation and confidence'']
      else [])
     @ (if eye_contact_percentage r \<ge> 70 then [''Maintained good eye contact''] else [])
     @ (if confidence_score r \<ge> 0.7 then [''Demonstrated high confidence''] else [])
     @ (if speech_clarity r \<ge> 0.7 then [''Clear and articulate speech''] else [])"

definition improvements :: "final_report \<Rightarrow> string list" where
  "improvements r =
     (if eye_contact_percentage r < 70 then [''Work on maintaining better eye contact''] else [])
     @ (if confidence_score r < 0.7 then [''Build confidence through practice''] else [])
     @ (if speech_clarity r < 0.7 then [''Improve speech clarity and articulation''] else [])
     @ (if overall_score r < 80 then [''Continue practicing interview skills''] else [])"

section \<open>Sample inputs\<close>

text \<open>A metrics object with the five fields the warning evaluation reads.\<close>

definition sampleMetrics ::
  "bool option \<Rightarrow> real \<Rightarrow> real \<Rightarrow> real \<Rightarrow> (string \<rightharpoonup> real) option \<Rightarrow> metrics" where
  "sampleMetrics face eye confidence clarity scores =
     \<lparr> face_detected = face, landmarks = None, eyeContactPercentage = eye,
       confidenceScore = confidence, speechClarity = clarity,
       emotionScores = scores, warnings = [] \<rparr>"


text \<open>A final report with the four scores the results page reads.\<close>

definition sampleReport :: "real \<Rightarrow> real \<Rightarrow> real \<Rightarrow> real \<Rightarrow> final_report" where
  "sampleReport eye confidence clarity overall =
     \<lparr> eye_contact_percentage = eye, confidence_score = confidence,
       speech_clarity = clarity, overall_score = overall, feedback = [] \<rparr>"

section \<open>Properties of the warning evaluation\<close>

subsection \<open>The emotion loop in closed form\<close>

lemma fold_emotionStep:
  "fold (emotionStep scores) es (h, ws) =
     (h \<or> (\<exists>e \<in> set es. exceedsThreshold scores e),
      ws @ map emotionWarning (filter (exceedsThreshold scores) es))"
  by (induction es arbitrary: h ws) (auto simp: emotionStep_def push_def)

lemma emotionCheck_Some:
  "emotionCheck (Some scores) ws =
     ws @ (if filter (exceedsThreshold scores) negativeEmotions = []
           then [emotionSuccess]
           else map emotionWarning (filter (exceedsThreshold scores) negativeEmotions))"
  by (simp add: emotionCheck_def fold_emotionStep push_def filter_empty_conv Let_def)

lemma emotionCheck_None: "emotionCheck None ws = ws"
  by (simp add: emotionCheck_def)

lemma emotionCheck_append: "emotionCheck sc ws = ws @ emotionCheck sc []"
  by (cases sc) (simp_all add: emotionCheck_None emotionCheck_Some)

lemma emotion_entries_category:
  "w \<in> set (emotionCheck sc []) \<Longrightarrow> category w = Emotion"
  by (cases sc)
    (auto simp: emotionCheck_None emotionCheck_Some emotionWarning_def emotionSuccess_def
      split: if_splits)

lemma emotion_entries_priority:
  "w \<in> set (emotionCheck sc []) \<Longrightarrow>
     0 \<le> priority w \<and> (priority w = 0 \<longleftrightarrow> wtype w = Success)"
  by (cases sc)
    (auto simp: emotionCheck_None emotionCheck_Some emotionWarning_def emotionSuccess_def
      split: if_splits)

subsection \<open>The performance checks\<close>

lemma eyeContactCheck_props:
  "category (eyeContactCheck x) = Performance" "icon (eyeContactCheck x) = EyeIcon"
  "0 \<le> priority (eyeContactCheck x)"
  "priority (eyeContactCheck x) = 0 \<longleftrightarrow> wtype (eyeContactCheck x) = Success"
  by (simp_all add: eyeContactCheck_def)

lemma confidenceCheck_props:
  "category (confidenceCheck x) = Performance" "icon (confidenceCheck x) = BicepsIcon"
  "0 \<le> priority (confidenceCheck x)"
  "priority (confidenceCheck x) = 0 \<longleftrightarrow> wtype (confidenceCheck x) = Success"
  by (simp_all add: confidenceCheck_def)

lemma speechClarityCheck_props:
  "category (speechClarityCheck x) = Performance" "icon (speechClarityCheck x) = SpeakingIcon"
  "0 \<le> priority (speechClarityCheck x)"
  "priority (speechClarityCheck x) = 0 \<longleftrightarrow> wtype (speechClarityCheck x) = Success"
  by (simp_all add: speechClarityCheck_def)

subsection \<open>The branch in which face and eyes are established\<close>

lemma analyzeWarnings_established:
  assumes "face_detected m = Some True" and "eyeContactPercentage m > 0"
  shows "analyzeWarnings (Some m) =
           sort_key priority
             ([detectionSuccess, eyeContactCheck (eyeContactPercentage m),
               confidenceCheck (confidenceScore m), speechClarityCheck (speechClarity m)]
              @ emotionCheck (emotionScores m) [])"
  using assms
  by (simp add: analyzeWarnings_def face_detected_truthy_def push_def
      emotionCheck_append [of _ "[_, _, _, _]"])

subsection \<open>Detection failures\<close>

text \<open>
  C1. When \<^verbatim>\<open>metrics?.face_detected\<close> is not truthy (no metrics object, the flag
  absent, or the flag false), the evaluation yields exactly one entry, an error of
  priority 1 and category detection; no performance or emotion entry is in the list.
\<close>

theorem no_face_single_detection_error:
  assumes "\<not> face_detected_truthy m"
  shows "(\<exists>w. analyzeWarnings m = [w] \<and> wtype w = Error \<and> priority w = 1
              \<and> category w = Detection)
    \<and> (\<forall>w \<in> set (analyzeWarnings m). category w \<noteq> Performance \<and> category w \<noteq> Emotion)"
  using assms by (simp add: analyzeWarnings_def push_def noFaceWarning_def)

theorem no_face_single_detection_error_witness:
  "\<not> face_detected_truthy (Some (sampleMetrics (Some False) 80 0.2 0.3 (Some [''angry'' \<mapsto> 0.9])))
   \<and> (\<exists>w. analyzeWarnings (Some (sampleMetrics (Some False) 80 0.2 0.3 (Some [''angry'' \<mapsto> 0.9]))) = [w]
          \<and> wtype w = Error \<and> priority w = 1 \<and> category w = Detection)"
proof -
  have h: "\<not> face_detected_truthy
             (Some (sampleMetrics (Some False) 80 0.2 0.3 (Some [''angry'' \<mapsto> 0.9])))"
    by (simp add: face_detected_truthy_def sampleMetrics_def)
  show ?thesis
    using h no_face_single_detection_error [OF h] by blast
qed

text \<open>
  C2. When a face is detected and the eye-contact percentage is exactly 0, the
  evaluation yields exactly one entry, an error of priority 2 and category detection;
  no performance or emotion entry is in the list. The metrics object carries no
  eye-contact flag of the latest sample, so the statement holds whatever that flag is.
\<close>

theorem eyes_not_visible_single_detection_error:
  assumes "face_detected m = Some True" and "eyeContactPercentage m = 0"
  shows "(\<exists>w. analyzeWarnings (Some m) = [w] \<and> wtype w = Error \<and> priority w = 2
              \<and> category w = Detection)
    \<and> (\<forall>w \<in> set (analyzeWarnings (Some m)).
          category w \<noteq> Performance \<and> category w \<noteq> Emotion)"
  using assms
  by (simp add: analyzeWarnings_def face_detected_truthy_def push_def eyesNotVisibleWarning_def)

theorem eyes_not_visible_single_detection_error_witness:
  "face_detected (sampleMetrics (Some True) 0 0.2 0.3 (Some [''sad'' \<mapsto> 0.9])) = Some True
   \<and> eyeContactPercentage (sampleMetrics (Some True) 0 0.2 0.3 (Some [''sad'' \<mapsto> 0.9])) = 0
   \<and> (\<exists>w. analyzeWarnings (Some (sampleMetrics (Some True) 0 0.2 0.3 (Some [''sad'' \<mapsto> 0.9]))) = [w]
          \<and> wtype w = Error \<and> priority w = 2 \<and> category w = Detection)"
proof -
  have h1: "face_detected (sampleMetrics (Some True) 0 0.2 0.3 (Some [''sad'' \<mapsto> 0.9]))
              = Some True"
    by (simp add: sampleMetrics_def)
  have h2: "eyeContactPercentage (sampleMetrics (Some True) 0 0.2 0.3 (Some [''sad'' \<mapsto> 0.9]))
              = 0"
    by (simp add: sampleMetrics_def)
  show ?thesis
    using h1 h2 eyes_not_visible_single_detection_error [OF h1 h2] by blast
qed

subsection \<open>Ordering\<close>

lemma success_prefix:
  assumes "sorted (map priority ws)"
    and "\<forall>w \<in> set ws. 0 \<le> priority w \<and> (priority w = 0 \<longleftrightarrow> wtype w = Success)"
  shows "takeWhile (\<lambda>w. wtype w = Success) ws = filter (\<lambda>w. wtype w = Success) ws"
  using assms
proof (induction ws)
  case Nil
  then show ?case by simp
next
  case (Cons x xs)
  show ?case
  proof (cases "wtype x = Success")
    case True
    with Cons show ?thesis by simp
  next
    case False
    with Cons.prems have "0 < priority x" by force
    with Cons.prems have "\<forall>w \<in> set xs. wtype w \<noteq> Success" by force
    then have "filter (\<lambda>w. wtype w = Success) xs = []" by (simp add: filter_empty_conv)
    with False show ?thesis by simp
  qed
qed

lemma analyzeWarnings_priorities:
  "w \<in> set (analyzeWarnings m) \<Longrightarrow>
     0 \<le> priority w \<and> (priority w = 0 \<longleftrightarrow> wtype w = Success)"
proof (cases "face_detected_truthy m")
  case False
  assume "w \<in> set (analyzeWarnings m)"
  with False show ?thesis by (simp add: analyzeWarnings_def push_def noFaceWarning_def)
next
  case True
  assume w: "w \<in> set (analyzeWarnings m)"
  from True obtain r where m: "m = Some r" and fd: "face_detected r = Some True"
    by (auto simp: face_detected_truthy_def split: option.splits)
  consider "eyeContactPercentage r = 0" | "eyeContactPercentage r > 0"
    | "eyeContactPercentage r < 0"
    by linarith
  then show ?thesis
  proof cases
    case 1
    with w m fd show ?thesis
      by (simp add: analyzeWarnings_def face_detected_truthy_def push_def
          eyesNotVisibleWarning_def)
  next
    case 2
    with fd have "analyzeWarnings (Some r) =
        sort_key priority
          ([detectionSuccess, eyeContactCheck (eyeContactPercentage r),
            confidenceCheck (confidenceScore r), speechClarityCheck (speechClarity r)]
           @ emotionCheck (emotionScores r) [])"
      by (rule analyzeWarnings_established)
    with w m have "w \<in> set ([detectionSuccess, eyeContactCheck (eyeContactPercentage r),
               confidenceCheck (confidenceScore r), speechClarityCheck (speechClarity r)]
              @ emotionCheck (emotionScores r) [])"
      by (simp only: set_sort)
    then show ?thesis
      using emotion_entries_priority [of w "emotionScores r"]
      by (auto simp: detectionSuccess_def eyeContactCheck_props confidenceCheck_props
          speechClarityCheck_props)
  next
    case 3
    with w m fd show ?thesis
      by (simp add: analyzeWarnings_def face_detected_truthy_def)
  qed
qed

lemma analyzeWarnings_sorted: "sorted (map priority (analyzeWarnings m))"
  by (simp add: analyzeWarnings_def push_def split: option.splits)

text \<open>
  C3. For every metrics value, also in the two cases that return before the sort, the
  list is in ascending order of priority. The success entries are exactly the entries
  of priority 0, and they form the front of the list.
\<close>

theorem warnings_sorted_by_priority:
  "sorted (map priority (analyzeWarnings m))
   \<and> takeWhile (\<lambda>w. wtype w = Success) (analyzeWarnings m)
       = filter (\<lambda>w. wtype w = Success) (analyzeWarnings m)
   \<and> (\<forall>w \<in> set (analyzeWarnings m). priority w = 0 \<longleftrightarrow> wtype w = Success)"
  using analyzeWarnings_sorted [of m] analyzeWarnings_priorities [of _ m]
    success_prefix [of "analyzeWarnings m"]
  by blast

theorem warnings_sorted_by_priority_witness:
  "map priority
     (analyzeWarnings (Some (sampleMetrics (Some True) 40 0.3 0.9 (Some [''fear'' \<mapsto> 0.7]))))
     = [0, 0, 3, 4, 4]
   \<and> map wtype
     (analyzeWarnings (Some (sampleMetrics (Some True) 40 0.3 0.9 (Some [''fear'' \<mapsto> 0.7]))))
     = [Success, Success, Error, Warning, Warning]
   \<and> sorted (map priority
       (analyzeWarnings (Some (sampleMetrics (Some True) 40 0.3 0.9 (Some [''fear'' \<mapsto> 0.7])))))
   \<and> takeWhile (\<lambda>w. wtype w = Success)
       (analyzeWarnings (Some (sampleMetrics (Some True) 40 0.3 0.9 (Some [''fear'' \<mapsto> 0.7]))))
     = filter (\<lambda>w. wtype w = Success)
       (analyzeWarnings (Some (sampleMetrics (Some True) 40 0.3 0.9 (Some [''fear'' \<mapsto> 0.7]))))"
proof -
  let ?m = "Some (sampleMetrics (Some True) 40 0.3 0.9 (Some [''fear'' \<mapsto> 0.7]))"
  have "map priority (analyzeWarnings ?m) = [0, 0, 3, 4, 4]"
    and "map wtype (analyzeWarnings ?m) = [Success, Success, Error, Warning, Warning]"
    by (simp_all add: analyzeWarnings_def face_detected_truthy_def sampleMetrics_def push_def
        emotionCheck_def emotionStep_def exceedsThreshold_def negativeEmotions_def
        detectionSuccess_def eyeContactCheck_def confidenceCheck_def speechClarityCheck_def
        emotionWarning_def emotionSuccess_def)
  then show ?thesis
    using warnings_sorted_by_priority [of ?m]
    by blast
qed

subsection \<open>Performance checks\<close>

lemma performance_entries:
  assumes "face_detected m = Some True" and "eyeContactPercentage m > 0"
  shows "mset (filter (\<lambda>w. category w = Performance) (analyzeWarnings (Some m))) =
           {# eyeContactCheck (eyeContactPercentage m), confidenceCheck (confidenceScore m),
              speechClarityCheck (speechClarity m) #}"
proof -
  have emo: "filter (\<lambda>w. category w = Performance) (emotionCheck (emotionScores m) []) = []"
    by (auto simp: filter_empty_conv dest: emotion_entries_category)
  have "mset (filter (\<lambda>w. category w = Performance) (analyzeWarnings (Some m))) =
        mset (filter (\<lambda>w. category w = Performance)
          ([detectionSuccess, eyeContactCheck (eyeContactPercentage m),
            confidenceCheck (confidenceScore m), speechClarityCheck (speechClarity m)]
           @ emotionCheck (emotionScores m) []))"
    by (simp only: analyzeWarnings_established [OF assms] mset_filter mset_sort)
  also have "\<dots> =
      {# eyeContactCheck (eyeContactPercentage m), confidenceCheck (confidenceScore m),
         speechClarityCheck (speechClarity m) #}"
    by (simp add: emo detectionSuccess_def eyeContactCheck_props confidenceCheck_props
        speechClarityCheck_props)
  finally show ?thesis .
qed

text \<open>
  C4. When a face is detected and the eye-contact percentage is above 0, the list holds
  exactly three performance entries, one per check: the eye-contact entry is an error of
  priority 3 below 30, a warning of priority 4 below 50 and a success otherwise; the
  confidence entry is an error of priority 3 below 0.4, a warning of priority 4 below
  0.6 and a success otherwise; the speech-clarity entry is an error of priority 3 below
  0.6, a warning of priority 4 below 0.8 and a success otherwise.
\<close>

theorem performance_checks_by_threshold:
  assumes "face_detected m = Some True" and "eyeContactPercentage m > 0"
  shows "\<exists>e c s.
      mset (filter (\<lambda>w. category w = Performance) (analyzeWarnings (Some m))) = {# e, c, s #}
    \<and> icon e = EyeIcon
    \<and> (eyeContactPercentage m < 30 \<longrightarrow> wtype e = Error \<and> priority e = 3)
    \<and> (30 \<le> eyeContactPercentage m \<and> eyeContactPercentage m < 50
          \<longrightarrow> wtype e = Warning \<and> priority e = 4)
    \<and> (50 \<le> eyeContactPercentage m \<longrightarrow> wtype e = Success)
    \<and> icon c = BicepsIcon
    \<and> (confidenceScore m < 0.4 \<longrightarrow> wtype c = Error \<and> priority c = 3)
    \<and> (0.4 \<le> confidenceScore m \<and> confidenceScore m < 0.6
          \<longrightarrow> wtype c = Warning \<and> priority c = 4)
    \<and> (0.6 \<le> confidenceScore m \<longrightarrow> wtype c = Success)
    \<and> icon s = SpeakingIcon
    \<and> (speechClarity m < 0.6 \<longrightarrow> wtype s = Error \<and> priority s = 3)
    \<and> (0.6 \<le> speechClarity m \<and> speechClarity m < 0.8
          \<longrightarrow> wtype s = Warning \<and> priority s = 4)
    \<and> (0.8 \<le> speechClarity m \<longrightarrow> wtype s = Success)"
proof (intro exI conjI)
  show "mset (filter (\<lambda>w. category w = Performance) (analyzeWarnings (Some m))) =
           {# eyeContactCheck (eyeContactPercentage m), confidenceCheck (confidenceScore m),
              speechClarityCheck (speechClarity m) #}"
    using assms by (rule performance_entries)
qed (simp_all add: eyeContactCheck_def confidenceCheck_def speechClarityCheck_def)

theorem performance_checks_by_threshold_witness:
  "face_detected (sampleMetrics (Some True) 40 0.3 0.9 None) = Some True
   \<and> eyeContactPercentage (sampleMetrics (Some True) 40 0.3 0.9 None) > 0
   \<and> (\<exists>e c s.
        mset (filter (\<lambda>w. category w = Performance)
               (analyzeWarnings (Some (sampleMetrics (Some True) 40 0.3 0.9 None))))
          = {# e, c, s #}
      \<and> wtype e = Warning \<and> priority e = 4
      \<and> wtype c = Error \<and> priority c = 3
      \<and> wtype s = Success)"
proof -
  let ?m = "sampleMetrics (Some True) 40 0.3 0.9 None"
  have h1: "face_detected ?m = Some True"
    by (simp add: sampleMetrics_def)
  have h2: "eyeContactPercentage ?m > 0"
    by (simp add: sampleMetrics_def)
  have v: "30 \<le> eyeContactPercentage ?m \<and> eyeContactPercentage ?m < 50"
    "confidenceScore ?m < 0.4" "0.8 \<le> speechClarity ?m"
    by (simp_all add: sampleMetrics_def)
  from performance_checks_by_threshold [OF h1 h2] obtain e c s where
    "mset (filter (\<lambda>w. category w = Performance) (analyzeWarnings (Some ?m))) = {# e, c, s #}"
    and "30 \<le> eyeContactPercentage ?m \<and> eyeContactPercentage ?m < 50
           \<longrightarrow> wtype e = Warning \<and> priority e = 4"
    and "confidenceScore ?m < 0.4 \<longrightarrow> wtype c = Error \<and> priority c = 3"
    and "0.8 \<le> speechClarity ?m \<longrightarrow> wtype s = Success"
    by blast
  with v h1 h2 show ?thesis by blast
qed

subsection \<open>Emotion check\<close>

lemma emotionWarnings_sorted: "sorted (map (priority \<circ> emotionWarning) es)"
  by (induction es) (auto simp: emotionWarning_def)

lemma emotionCheck_sorted: "sorted (map priority (emotionCheck sc []))"
  by (cases sc) (simp_all add: emotionCheck_None emotionCheck_Some emotionWarnings_sorted)

text \<open>
  The sort is stable and the emotion entries are pushed in ascending priority, so the
  emotion entries of the result are the ones the emotion check pushed, in that order.
\<close>

lemma emotion_entries:
  assumes "face_detected m = Some True" and "eyeContactPercentage m > 0"
  shows "filter (\<lambda>w. category w = Emotion) (analyzeWarnings (Some m)) =
           emotionCheck (emotionScores m) []"
proof -
  let ?E = "emotionCheck (emotionScores m) []"
  have all: "\<forall>w \<in> set ?E. category w = Emotion"
    by (simp add: emotion_entries_category)
  have "filter (\<lambda>w. category w = Emotion) (analyzeWarnings (Some m)) =
        sort_key priority (filter (\<lambda>w. category w = Emotion)
          ([detectionSuccess, eyeContactCheck (eyeContactPercentage m),
            confidenceCheck (confidenceScore m), speechClarityCheck (speechClarity m)] @ ?E))"
    by (simp only: analyzeWarnings_established [OF assms] filter_sort)
  also have "filter (\<lambda>w. category w = Emotion)
          ([detectionSuccess, eyeContactCheck (eyeContactPercentage m),
            confidenceCheck (confidenceScore m), speechClarityCheck (speechClarity m)] @ ?E)
        = ?E"
    using all
    by (simp add: detectionSuccess_def eyeContactCheck_props confidenceCheck_props
        speechClarityCheck_props filter_id_conv)
  also have "sort_key priority ?E = ?E"
    by (rule sort_key_id_if_sorted) (rule emotionCheck_sorted)
  finally show ?thesis .
qed

lemma exceedsThreshold_iff:
  "exceedsThreshold scores e \<longleftrightarrow> (\<exists>v. scores e = Some v \<and> 0.5 < v)"
  by (simp add: exceedsThreshold_def split: option.splits)

text \<open>
  C5. When a face is detected, the eye-contact percentage is above 0 and the emotion
  scores are present, the emotion entries of the list are: one warning of priority 4 for
  each of angry, sad, fear and disgust whose score is above 0.5, in that order; or, when
  none of the four is above 0.5, the single emotion success entry.
\<close>

theorem negative_emotion_warnings:
  assumes "face_detected m = Some True" and "eyeContactPercentage m > 0"
    and "emotionScores m = Some scores"
  shows "filter (\<lambda>w. category w = Emotion) (analyzeWarnings (Some m)) =
           (if \<exists>e \<in> {''angry'', ''sad'', ''fear'', ''disgust''}.
                 \<exists>v. scores e = Some v \<and> 0.5 < v
            then map emotionWarning
                   (filter (\<lambda>e. \<exists>v. scores e = Some v \<and> 0.5 < v)
                      [''angry'', ''sad'', ''fear'', ''disgust''])
            else [emotionSuccess])
    \<and> (\<forall>e. wtype (emotionWarning e) = Warning \<and> priority (emotionWarning e) = 4
            \<and> category (emotionWarning e) = Emotion)
    \<and> wtype emotionSuccess = Success \<and> category emotionSuccess = Emotion"
proof -
  have ex: "exceedsThreshold scores = (\<lambda>e. \<exists>v. scores e = Some v \<and> 0.5 < v)"
    by (rule ext) (rule exceedsThreshold_iff)
  have "filter (\<lambda>w. category w = Emotion) (analyzeWarnings (Some m)) =
          emotionCheck (Some scores) []"
    using emotion_entries [OF assms(1,2)] assms(3) by simp
  also have "\<dots> =
      (if \<exists>e \<in> set negativeEmotions. \<exists>v. scores e = Some v \<and> 0.5 < v
       then map emotionWarning
              (filter (\<lambda>e. \<exists>v. scores e = Some v \<and> 0.5 < v) negativeEmotions)
       else [emotionSuccess])"
    by (simp add: emotionCheck_Some ex filter_empty_conv)
  finally show ?thesis
    by (simp add: negativeEmotions_def emotionWarning_def emotionSuccess_def)
qed

theorem negative_emotion_warnings_witness:
  "face_detected (sampleMetrics (Some True) 80 0.9 0.9
       (Some [''sad'' \<mapsto> 0.7, ''happy'' \<mapsto> 0.9, ''fear'' \<mapsto> 0.5, ''disgust'' \<mapsto> 0.6]))
     = Some True
   \<and> eyeContactPercentage (sampleMetrics (Some True) 80 0.9 0.9
       (Some [''sad'' \<mapsto> 0.7, ''happy'' \<mapsto> 0.9, ''fear'' \<mapsto> 0.5, ''disgust'' \<mapsto> 0.6]))
     > 0
   \<and> filter (\<lambda>w. category w = Emotion)
       (analyzeWarnings (Some (sampleMetrics (Some True) 80 0.9 0.9
          (Some [''sad'' \<mapsto> 0.7, ''happy'' \<mapsto> 0.9, ''fear'' \<mapsto> 0.5, ''disgust'' \<mapsto> 0.6]))))
     = [emotionWarning ''sad'', emotionWarning ''disgust'']"
proof -
  let ?sc = "[''sad'' \<mapsto> 0.7, ''happy'' \<mapsto> 0.9, ''fear'' \<mapsto> 0.5, ''disgust'' \<mapsto> (0.6::real)]"
  let ?m = "sampleMetrics (Some True) 80 0.9 0.9 (Some ?sc)"
  have h1: "face_detected ?m = Some True" by (simp add: sampleMetrics_def)
  have h2: "eyeContactPercentage ?m > 0" by (simp add: sampleMetrics_def)
  have h3: "emotionScores ?m = Some ?sc" by (simp add: sampleMetrics_def)
  have "filter (\<lambda>w. category w = Emotion) (analyzeWarnings (Some ?m))
          = [emotionWarning ''sad'', emotionWarning ''disgust'']"
    using negative_emotion_warnings [OF h1 h2 h3]
    unfolding exceedsThreshold_iff [of ?sc, symmetric]
    by (simp add: exceedsThreshold_def)
  with h1 h2 show ?thesis by blast
qed

text \<open>
  C10. When a face is detected, the eye-contact percentage is above 0 and the emotion
  scores are absent, the list has no emotion entry at all; it consists of the detection
  success entry and the three performance entries.
\<close>

theorem no_emotion_scores_no_emotion_entry:
  assumes "face_detected m = Some True" and "eyeContactPercentage m > 0"
    and "emotionScores m = None"
  shows "filter (\<lambda>w. category w = Emotion) (analyzeWarnings (Some m)) = []
    \<and> mset (analyzeWarnings (Some m)) =
        {# detectionSuccess, eyeContactCheck (eyeContactPercentage m),
           confidenceCheck (confidenceScore m), speechClarityCheck (speechClarity m) #}
    \<and> category detectionSuccess = Detection
    \<and> category (eyeContactCheck (eyeContactPercentage m)) = Performance
    \<and> category (confidenceCheck (confidenceScore m)) = Performance
    \<and> category (speechClarityCheck (speechClarity m)) = Performance"
proof -
  have "filter (\<lambda>w. category w = Emotion) (analyzeWarnings (Some m)) = []"
    using emotion_entries [OF assms(1,2)] assms(3) by (simp add: emotionCheck_None)
  moreover have "mset (analyzeWarnings (Some m)) =
        {# detectionSuccess, eyeContactCheck (eyeContactPercentage m),
           confidenceCheck (confidenceScore m), speechClarityCheck (speechClarity m) #}"
    unfolding analyzeWarnings_established [OF assms(1,2)] mset_sort
    by (simp add: assms(3) emotionCheck_None)
  ultimately show ?thesis
    by (simp add: detectionSuccess_def eyeContactCheck_props confidenceCheck_props
        speechClarityCheck_props)
qed

theorem no_emotion_scores_no_emotion_entry_witness:
  "face_detected (sampleMetrics (Some True) 80 0.5 0.7 None) = Some True
   \<and> eyeContactPercentage (sampleMetrics (Some True) 80 0.5 0.7 None) > 0
   \<and> emotionScores (sampleMetrics (Some True) 80 0.5 0.7 None) = None
   \<and> filter (\<lambda>w. category w = Emotion)
        (analyzeWarnings (Some (sampleMetrics (Some True) 80 0.5 0.7 None))) = []
   \<and> length (analyzeWarnings (Some (sampleMetrics (Some True) 80 0.5 0.7 None))) = 4"
proof -
  let ?m = "sampleMetrics (Some True) 80 0.5 0.7 None"
  have h1: "face_detected ?m = Some True" by (simp add: sampleMetrics_def)
  have h2: "eyeContactPercentage ?m > 0" by (simp add: sampleMetrics_def)
  have h3: "emotionScores ?m = None" by (simp add: sampleMetrics_def)
  from no_emotion_scores_no_emotion_entry [OF h1 h2 h3]
  have a: "filter (\<lambda>w. category w = Emotion) (analyzeWarnings (Some ?m)) = []"
    and b: "size (mset (analyzeWarnings (Some ?m))) = 4"
    by simp_all
  from b have "length (analyzeWarnings (Some ?m)) = 4" by (simp only: size_mset)
  with h1 h2 h3 a show ?thesis by blast
qed

subsection \<open>Determinism\<close>

text \<open>
  C6. The evaluation is a function of five fields of the metrics object: two metrics
  objects that agree on the face-detected flag, the eye-contact percentage, the
  confidence score, the speech clarity and the emotion scores give the same list, entry
  by entry and in the same order, whatever their other fields hold.
\<close>

theorem analyzeWarnings_deterministic:
  fixes m1 :: "'a metrics_scheme" and m2 :: "'b metrics_scheme"
  assumes "face_detected m1 = face_detected m2"
    and "eyeContactPercentage m1 = eyeContactPercentage m2"
    and "confidenceScore m1 = confidenceScore m2"
    and "speechClarity m1 = speechClarity m2"
    and "emotionScores m1 = emotionScores m2"
  shows "analyzeWarnings (Some m1) = analyzeWarnings (Some m2)"
  by (simp add: analyzeWarnings_def face_detected_truthy_def assms)

theorem analyzeWarnings_deterministic_witness:
  "sampleMetrics (Some True) 40 0.3 0.9 (Some [''fear'' \<mapsto> 0.7])
     \<noteq> (sampleMetrics (Some True) 40 0.3 0.9 (Some [''fear'' \<mapsto> 0.7]))
          \<lparr> landmarks := Some 468, warnings := [''Low eye contact''] \<rparr>
   \<and> analyzeWarnings (Some (sampleMetrics (Some True) 40 0.3 0.9 (Some [''fear'' \<mapsto> 0.7])))
     = analyzeWarnings (Some ((sampleMetrics (Some True) 40 0.3 0.9 (Some [''fear'' \<mapsto> 0.7]))
          \<lparr> landmarks := Some 468, warnings := [''Low eye contact''] \<rparr>))"
proof -
  let ?a = "sampleMetrics (Some True) 40 0.3 0.9 (Some [''fear'' \<mapsto> 0.7])"
  let ?b = "?a \<lparr> landmarks := Some 468, warnings := [''Low eye contact''] \<rparr>"
  have ne: "?a \<noteq> ?b" by (simp add: sampleMetrics_def)
  have "analyzeWarnings (Some ?a) = analyzeWarnings (Some ?b)"
    by (rule analyzeWarnings_deterministic) simp_all
  with ne show ?thesis by blast
qed

section \<open>Properties of the session state\<close>

subsection \<open>Rounding of the index arithmetic\<close>





subsection \<open>Navigation\<close>




text \<open>
  C9. The reducer applied to \<^verbatim>\<open>SET_CURRENT_QUESTION\<close> sets the current question
  index to the payload and leaves every other field of the state as it was.
\<close>

theorem set_current_question_frame:
  "currentQuestionIndex (interviewReducer s (SET_CURRENT_QUESTION p)) = p
   \<and> sessionId (interviewReducer s (SET_CURRENT_QUESTION p)) = sessionId s
   \<and> candidateName (interviewReducer s (SET_CURRENT_QUESTION p)) = candidateName s
   \<and> questions (interviewReducer s (SET_CURRENT_QUESTION p)) = questions s
   \<and> isInterviewActive (interviewReducer s (SET_CURRENT_QUESTION p)) = isInterviewActive s
   \<and> isInterviewCompleted (interviewReducer s (SET_CURRENT_QUESTION p)) = isInterviewCompleted s
   \<and> metrics (interviewReducer s (SET_CURRENT_QUESTION p)) = metrics s
   \<and> videoStream (interviewReducer s (SET_CURRENT_QUESTION p)) = videoStream s
   \<and> audioStream (interviewReducer s (SET_CURRENT_QUESTION p)) = audioStream s
   \<and> isLoading (interviewReducer s (SET_CURRENT_QUESTION p)) = isLoading s
   \<and> error (interviewReducer s (SET_CURRENT_QUESTION p)) = error s
   \<and> finalResults (interviewReducer s (SET_CURRENT_QUESTION p)) = finalResults s
   \<and> socket (interviewReducer s (SET_CURRENT_QUESTION p)) = socket s
   \<and> isConnected (interviewReducer s (SET_CURRENT_QUESTION p)) = isConnected s"
  by simp

section \<open>Properties of the feedback bullets\<close>

text \<open>
  C8. The bullets depend on the final report alone. An eye-contact percentage of at
  least 70 gives the eye-contact strength bullet and not the improvement bullet, one
  below 70 gives the improvement bullet and not the strength bullet; the same holds for
  the confidence score and the speech clarity with the threshold 0.7.
\<close>

theorem feedback_bullets_by_threshold:
  "(eye_contact_percentage r \<ge> 70 \<longrightarrow>
      ''Maintained good eye contact'' \<in> set (strengths r)
      \<and> ''Work on maintaining better eye contact'' \<notin> set (improvements r))
   \<and> (eye_contact_percentage r < 70 \<longrightarrow>
      ''Work on maintaining better eye contact'' \<in> set (improvements r)
      \<and> ''Maintained good eye contact'' \<notin> set (strengths r))
   \<and> (confidence_score r \<ge> 0.7 \<longrightarrow>
      ''Demonstrated high confidence'' \<in> set (strengths r)
      \<and> ''Build confidence through practice'' \<notin> set (improvements r))
   \<and> (confidence_score r < 0.7 \<longrightarrow>
      ''Build confidence through practice'' \<in> set (improvements r)
      \<and> ''Demonstrated high confidence'' \<notin> set (strengths r))
   \<and> (speech_clarity r \<ge> 0.7 \<longrightarrow>
      ''Clear and articulate speech'' \<in> set (strengths r)
      \<and> ''Improve speech clarity and articulation'' \<notin> set (improvements r))
   \<and> (speech_clarity r < 0.7 \<longrightarrow>
      ''Improve speech clarity and articulation'' \<in> set (improvements r)
      \<and> ''Clear and articulate speech'' \<notin> set (strengths r))"
  by (simp add: strengths_def improvements_def)

theorem feedback_bullets_by_threshold_witness:
  "eye_contact_percentage (sampleReport 70 0.65 0.7 68) \<ge> 70
   \<and> confidence_score (sampleReport 70 0.65 0.7 68) < 0.7
   \<and> speech_clarity (sampleReport 70 0.65 0.7 68) \<ge> 0.7
   \<and> ''Maintained good eye contact'' \<in> set (strengths (sampleReport 70 0.65 0.7 68))
   \<and> ''Build confidence through practice'' \<in> set (improvements (sampleReport 70 0.65 0.7 68))
   \<and> ''Clear and articulate speech'' \<in> set (strengths (sampleReport 70 0.65 0.7 68))
   \<and> eye_contact_percentage (sampleReport 69 0.7 0.5 68) < 70
   \<and> confidence_score (sampleReport 69 0.7 0.5 68) \<ge> 0.7
   \<and> speech_clarity (sampleReport 69 0.7 0.5 68) < 0.7
   \<and> ''Work on maintaining better eye contact''
        \<in> set (improvements (sampleReport 69 0.7 0.5 68))
   \<and> ''Demonstrated high confidence'' \<in> set (strengths (sampleReport 69 0.7 0.5 68))
   \<and> ''Improve speech clarity and articulation''
        \<in> set (improvements (sampleReport 69 0.7 0.5 68))"
proof -
  have a: "eye_contact_percentage (sampleReport 70 0.65 0.7 68) \<ge> 70"
    "confidence_score (sampleReport 70 0.65 0.7 68) < 0.7"
    "speech_clarity (sampleReport 70 0.65 0.7 68) \<ge> 0.7"
    by (simp_all add: sampleReport_def)
  have b: "eye_contact_percentage (sampleReport 69 0.7 0.5 68) < 70"
    "confidence_score (sampleReport 69 0.7 0.5 68) \<ge> 0.7"
    "speech_clarity (sampleReport 69 0.7 0.5 68) < 0.7"
    by (simp_all add: sampleReport_def)
  show ?thesis
    using a b feedback_bullets_by_threshold [of "sampleReport 70 0.65 0.7 68"]
      feedback_bullets_by_threshold [of "sampleReport 69 0.7 0.5 68"]
    by blast
qed

end

